theory Spec2Isabelle
  imports Complex_Main "HOL-Library.Sublist"
begin

section \<open>Conventions of the embedding\<close>

text \<open>
  The program is Python. Its numbers are floats; a finite float is modelled by the real
  number it denotes (rounding of finite arithmetic is not modelled), and the three special
  values that pandas and numpy produce instead of raising, \<open>inf\<close>, \<open>-inf\<close> and \<open>nan\<close>, are
  kept as constructors of their own wherever the code can produce them. There is one zero:
  a negative zero would only change the sign of an infinite quotient. Strings are
  \<open>string\<close>, \<open>None\<close> is \<open>None\<close>, a raised exception is the left summand of a sum, a
  dictionary with a fixed set of keys is a record, and the module-level dictionary
  \<open>daily_stats\<close> is a component of an explicit state.
\<close>

datatype error = ZeroDivisionError | IndexError | ValueError

subsection \<open>Floats with the special values of numpy\<close>

datatype pyfloat = Fin real | PInf | NInf | NaN

fun fneg :: "pyfloat \<Rightarrow> pyfloat" where
  "fneg (Fin x) = Fin (- x)"
| "fneg PInf = NInf"
| "fneg NInf = PInf"
| "fneg NaN = NaN"

fun fadd :: "pyfloat \<Rightarrow> pyfloat \<Rightarrow> pyfloat" where
  "fadd (Fin x) (Fin y) = Fin (x + y)"
| "fadd NaN b = NaN"
| "fadd a NaN = NaN"
| "fadd PInf NInf = NaN"
| "fadd NInf PInf = NaN"
| "fadd PInf b = PInf"
| "fadd a PInf = PInf"
| "fadd NInf b = NInf"
| "fadd a NInf = NInf"

definition fsub :: "pyfloat \<Rightarrow> pyfloat \<Rightarrow> pyfloat" where
  "fsub a b = fadd a (fneg b)"

text \<open>Division as numpy does it: a zero divisor gives an infinity or \<open>nan\<close>, never an exception.\<close>

fun fdiv :: "pyfloat \<Rightarrow> pyfloat \<Rightarrow> pyfloat" where
  "fdiv (Fin x) (Fin y) =
     (if y = 0 then (if x = 0 then NaN else if 0 < x then PInf else NInf) else Fin (x / y))"
| "fdiv NaN b = NaN"
| "fdiv a NaN = NaN"
| "fdiv (Fin x) b = Fin 0"
| "fdiv PInf (Fin y) = (if 0 \<le> y then PInf else NInf)"
| "fdiv NInf (Fin y) = (if 0 \<le> y then NInf else PInf)"
| "fdiv a b = NaN"

text \<open>Comparisons: every comparison with \<open>nan\<close> is false.\<close>

fun flt :: "pyfloat \<Rightarrow> pyfloat \<Rightarrow> bool" where
  "flt (Fin x) (Fin y) = (x < y)"
| "flt (Fin x) PInf = True"
| "flt NInf (Fin y) = True"
| "flt NInf PInf = True"
| "flt a b = False"

definition fgt :: "pyfloat \<Rightarrow> pyfloat \<Rightarrow> bool" where
  "fgt a b = flt b a"

definition isna :: "pyfloat \<Rightarrow> bool" where
  "isna a = (a = NaN)"

subsection \<open>Series operations of pandas\<close>

text \<open>\<open>Series.diff()\<close>: the first entry has no predecessor and is \<open>nan\<close>.\<close>

fun diff :: "real list \<Rightarrow> pyfloat list" where
  "diff [] = []"
| "diff (x # xs) = NaN # map2 (\<lambda>a b. Fin (b - a)) (x # xs) xs"

text \<open>\<open>s.where(cond, other)\<close>: keep the entries that satisfy the condition.\<close>

definition series_where :: "(pyfloat \<Rightarrow> bool) \<Rightarrow> pyfloat \<Rightarrow> pyfloat list \<Rightarrow> pyfloat list" where
  "series_where c other s = map (\<lambda>x. if c x then x else other) s"

definition fsum :: "pyfloat list \<Rightarrow> pyfloat" where
  "fsum s = foldr fadd s (Fin 0)"

text \<open>
  \<open>s.rolling(window=w).mean()\<close>, with its default \<open>min_periods = w\<close>: an entry is \<open>nan\<close>
  unless the \<open>w\<close> entries that end there exist and none of them is \<open>nan\<close>.
\<close>

definition window_mean :: "nat \<Rightarrow> pyfloat list \<Rightarrow> pyfloat" where
  "window_mean w s =
     (if w = 0 \<or> length s < w then NaN
      else (let win = drop (length s - w) s
            in if NaN \<in> set win then NaN else fdiv (fsum win) (Fin (real w))))"

definition rolling_mean :: "nat \<Rightarrow> pyfloat list \<Rightarrow> pyfloat list" where
  "rolling_mean w s = map (\<lambda>i. window_mean w (take (Suc i) s)) [0..<length s]"

text \<open>
  \<open>s.ewm(span=n, adjust=False).mean()\<close>: \<open>y\<^sub>0 = x\<^sub>0\<close> and
  \<open>y\<^sub>t = (1 - \<alpha>) y\<^sub>t\<^sub>-\<^sub>1 + \<alpha> x\<^sub>t\<close> with \<open>\<alpha> = 2 / (n + 1)\<close>; pandas raises
  \<open>ValueError\<close> for a span below 1.
\<close>

fun ewm_from :: "real \<Rightarrow> real \<Rightarrow> real list \<Rightarrow> real list" where
  "ewm_from \<alpha> y [] = []"
| "ewm_from \<alpha> y (x # xs) = (let y' = (1 - \<alpha>) * y + \<alpha> * x in y' # ewm_from \<alpha> y' xs)"

fun ewm_mean :: "nat \<Rightarrow> real list \<Rightarrow> error + real list" where
  "ewm_mean n [] = (if n < 1 then Inl ValueError else Inr [])"
| "ewm_mean n (x # xs) =
     (if n < 1 then Inl ValueError else Inr (x # ewm_from (2 / (real n + 1)) x xs))"

text \<open>\<open>s.iloc[-1]\<close> and \<open>s.iloc[-2]\<close>: \<open>IndexError\<close> when the position does not exist.\<close>

definition iloc_last :: "'a list \<Rightarrow> error + 'a" where
  "iloc_last s = (if s = [] then Inl IndexError else Inr (last s))"

definition iloc_prev :: "'a list \<Rightarrow> error + 'a" where
  "iloc_prev s = (if length s < 2 then Inl IndexError else Inr (s ! (length s - 2)))"

definition bind_err :: "error + 'a \<Rightarrow> ('a \<Rightarrow> error + 'b) \<Rightarrow> error + 'b" where
  "bind_err m f = (case m of Inl e \<Rightarrow> Inl e | Inr x \<Rightarrow> f x)"

section \<open>Configuration (config.py)\<close>

record config =
  EXPIRATION_TIME :: nat
  MAX_BANK_PERCENTAGE :: real
  DAILY_STOP_LOSS :: real
  DAILY_STOP_GAIN :: real
  RSI_PERIOD :: nat
  RSI_OVERBOUGHT :: real
  RSI_OVERSOLD :: real
  MACD_FAST :: nat
  MACD_SLOW :: nat
  MACD_SIGNAL :: nat

definition Config :: config where
  "Config = \<lparr>EXPIRATION_TIME = 1, MAX_BANK_PERCENTAGE = 20 / 100, DAILY_STOP_LOSS = 40 / 100,
     DAILY_STOP_GAIN = 1, RSI_PERIOD = 14, RSI_OVERBOUGHT = 70, RSI_OVERSOLD = 30,
     MACD_FAST = 12, MACD_SLOW = 26, MACD_SIGNAL = 9\<rparr>"

section \<open>Indicator engine (app/services/analysis.py)\<close>

text \<open>A candle, with the five columns the indicators read.\<close>

record candle =
  open_c :: real
  high :: real
  low :: real
  close :: real
  volume :: real

record rsi_result =
  rsi_value :: pyfloat
  rsi_signal :: string
  overbought :: bool
  oversold :: bool

definition rsi_gain :: "pyfloat list \<Rightarrow> pyfloat list" where
  "rsi_gain delta = series_where (\<lambda>d. fgt d (Fin 0)) (Fin 0) delta"

definition rsi_loss :: "pyfloat list \<Rightarrow> pyfloat list" where
  "rsi_loss delta = map fneg (series_where (\<lambda>d. flt d (Fin 0)) (Fin 0) delta)"

definition rsi_of_rs :: "pyfloat \<Rightarrow> pyfloat" where
  "rsi_of_rs rs = fsub (Fin 100) (fdiv (Fin 100) (fadd (Fin 1) rs))"

text \<open>\<open>period or app.config['RSI_PERIOD']\<close>: \<open>None\<close> and 0 both select the configured period.\<close>

definition rsi_period :: "config \<Rightarrow> nat option \<Rightarrow> nat" where
  "rsi_period cfg period =
     (case period of None \<Rightarrow> RSI_PERIOD cfg
      | Some p \<Rightarrow> if p = 0 then RSI_PERIOD cfg else p)"

definition calculate_rsi :: "config \<Rightarrow> candle list \<Rightarrow> nat option \<Rightarrow> error + rsi_result" where
  "calculate_rsi cfg df period =
     (let p = rsi_period cfg period;
          delta = diff (map close df);
          avg_gain = rolling_mean p (rsi_gain delta);
          avg_loss = rolling_mean p (rsi_loss delta);
          rs = map2 fdiv avg_gain avg_loss;
          rsi = map rsi_of_rs rs
      in bind_err (iloc_last rsi) (\<lambda>latest_rsi.
           Inr \<lparr>rsi_value = latest_rsi,
                rsi_signal =
                  (if flt latest_rsi (Fin (RSI_OVERSOLD cfg)) then ''CALL''
                   else if fgt latest_rsi (Fin (RSI_OVERBOUGHT cfg)) then ''PUT''
                   else ''NEUTRAL''),
                overbought = fgt latest_rsi (Fin (RSI_OVERBOUGHT cfg)),
                oversold = flt latest_rsi (Fin (RSI_OVERSOLD cfg))\<rparr>))"

record macd_result =
  macd :: real
  macd_signal :: string
  histogram :: real
  crossover :: bool

definition calculate_macd :: "config \<Rightarrow> candle list \<Rightarrow> error + macd_result" where
  "calculate_macd cfg df =
     bind_err (ewm_mean (MACD_FAST cfg) (map close df)) (\<lambda>ema_fast.
     bind_err (ewm_mean (MACD_SLOW cfg) (map close df)) (\<lambda>ema_slow.
     (let macd_line = map2 (\<lambda>a b. a - b) ema_fast ema_slow
      in bind_err (ewm_mean (MACD_SIGNAL cfg) macd_line) (\<lambda>signal_line.
         (let hist = map2 (\<lambda>a b. a - b) macd_line signal_line
          in bind_err (iloc_last macd_line) (\<lambda>latest_macd.
             bind_err (iloc_last signal_line) (\<lambda>latest_signal.
             bind_err (iloc_last hist) (\<lambda>latest_histogram.
             bind_err (if length hist > 1 then iloc_prev hist else Inr 0) (\<lambda>prev_histogram.
               Inr \<lparr>macd = latest_macd,
                    macd_signal =
                      (if latest_macd > latest_signal \<and> latest_histogram > 0
                          \<and> latest_histogram > prev_histogram then ''CALL''
                       else if latest_macd < latest_signal \<and> latest_histogram < 0
                          \<and> latest_histogram < prev_histogram then ''PUT''
                       else ''NEUTRAL''),
                    histogram = latest_histogram,
                    crossover = (latest_macd > latest_signal)\<rparr>)))))))))"

record volume_result =
  latest_volume :: real
  avg_volume :: pyfloat
  volume_ratio :: pyfloat
  volume_signal :: string

definition analyze_volume :: "candle list \<Rightarrow> error + volume_result" where
  "analyze_volume df =
     (let avg = rolling_mean 10 (map (\<lambda>c. Fin (volume c)) df)
      in bind_err (iloc_last (map volume df)) (\<lambda>latest.
         bind_err (iloc_last avg) (\<lambda>avg_last.
         bind_err (iloc_last df) (\<lambda>c.
           (let ratio = (if \<not> isna avg_last then fdiv (Fin latest) avg_last else Fin 1);
                price_change = close c - open_c c
            in Inr \<lparr>latest_volume = latest,
                    avg_volume = (if \<not> isna avg_last then avg_last else Fin 0),
                    volume_ratio = ratio,
                    volume_signal =
                      (if fgt ratio (Fin (15 / 10)) \<and> price_change > 0 then ''CALL''
                       else if fgt ratio (Fin (15 / 10)) \<and> price_change < 0 then ''PUT''
                       else ''NEUTRAL'')\<rparr>)))))"

record patterns_result =
  doji :: bool
  hammer :: bool
  bullish_engulfing :: "bool option"
  bearish_engulfing :: "bool option"
  patterns_signal :: string

definition body_size :: "candle \<Rightarrow> real" where
  "body_size c = \<bar>close c - open_c c\<bar>"

definition upper_shadow :: "candle \<Rightarrow> real" where
  "upper_shadow c = high c - max (open_c c) (close c)"

definition lower_shadow :: "candle \<Rightarrow> real" where
  "lower_shadow c = min (open_c c) (close c) - low c"

definition is_bullish :: "candle \<Rightarrow> bool" where
  "is_bullish c = (close c > open_c c)"

text \<open>\<open>patterns.get(key, False)\<close> on an entry that may be absent.\<close>

definition get_flag :: "bool option \<Rightarrow> bool" where
  "get_flag b = (case b of None \<Rightarrow> False | Some v \<Rightarrow> v)"

definition detect_candlestick_patterns :: "candle list \<Rightarrow> error + patterns_result" where
  "detect_candlestick_patterns df =
     (let last_candles = drop (length df - 3) df
      in bind_err (iloc_last last_candles) (\<lambda>latest.
         (let body_to_range_ratio =
                (if high latest - low latest > 0
                 then body_size latest / (high latest - low latest) else 0);
              lower_shadow_ratio =
                (if body_size latest > 0 then lower_shadow latest / body_size latest else 0);
              upper_shadow_ratio =
                (if body_size latest > 0 then upper_shadow latest / body_size latest else 0);
              hammer_v = (lower_shadow_ratio > 2 \<and> upper_shadow_ratio < 5 / 10);
              engulfing =
                (if length last_candles \<ge> 2
                 then (let prev = last_candles ! (length last_candles - 2)
                       in (Some (is_bullish latest \<and> \<not> is_bullish prev
                                 \<and> open_c latest < close prev \<and> close latest > open_c prev),
                           Some (\<not> is_bullish latest \<and> is_bullish prev
                                 \<and> open_c latest > close prev \<and> close latest < open_c prev)))
                 else (None, None))
          in Inr \<lparr>doji = (body_to_range_ratio < 1 / 10),
                  hammer = hammer_v,
                  bullish_engulfing = fst engulfing,
                  bearish_engulfing = snd engulfing,
                  patterns_signal =
                    (if get_flag (fst engulfing) \<or> (hammer_v \<and> is_bullish latest) then ''CALL''
                     else if get_flag (snd engulfing) \<or> (hammer_v \<and> \<not> is_bullish latest)
                     then ''PUT''
                     else ''NEUTRAL'')\<rparr>)))"

subsection \<open>Signal fusion\<close>

text \<open>
  A value of the \<open>signals\<close> dictionary: a dictionary, of which only \<open>v.get('signal')\<close> is
  read, or something that is not a dictionary. The dictionary itself is kept as the list
  of its items, in insertion order.
\<close>

datatype sigval = SigDict "string option" | NonDict

record overall =
  signal :: string
  strength :: real
  call_count :: nat
  put_count :: nat

fun has_signal :: "string \<Rightarrow> sigval \<Rightarrow> bool" where
  "has_signal d (SigDict s) = (s = Some d)"
| "has_signal d NonDict = False"

definition count_signal :: "string \<Rightarrow> (string \<times> sigval) list \<Rightarrow> nat" where
  "count_signal d signals = length (filter (\<lambda>kv. has_signal d (snd kv)) signals)"

definition determine_overall_signal :: "(string \<times> sigval) list \<Rightarrow> error + overall" where
  "determine_overall_signal signals =
     (let calls_n = count_signal ''CALL'' signals;
          puts_n = count_signal ''PUT'' signals;
          total_indicators = int (length signals) - 1
      in if calls_n > puts_n then
           (if total_indicators = 0 then Inl ZeroDivisionError
            else Inr \<lparr>signal = ''CALL'',
                      strength = (real calls_n / real_of_int total_indicators) * 100,
                      call_count = calls_n, put_count = puts_n\<rparr>)
         else if puts_n > calls_n then
           (if total_indicators = 0 then Inl ZeroDivisionError
            else Inr \<lparr>signal = ''PUT'',
                      strength = (real puts_n / real_of_int total_indicators) * 100,
                      call_count = calls_n, put_count = puts_n\<rparr>)
         else Inr \<lparr>signal = ''NEUTRAL'', strength = 0,
                   call_count = calls_n, put_count = puts_n\<rparr>)"

text \<open>
  The dictionary as \<open>analyze_asset\<close> has built it when it calls
  \<open>determine_overall_signal\<close>: the four indicator results, and no \<open>'overall'\<close> key yet.
\<close>

definition indicator_signals :: "string \<Rightarrow> string \<Rightarrow> string \<Rightarrow> string \<Rightarrow> (string \<times> sigval) list" where
  "indicator_signals r m v p =
     [(''rsi'', SigDict (Some r)), (''macd'', SigDict (Some m)),
      (''volume'', SigDict (Some v)), (''patterns'', SigDict (Some p))]"

record analysis =
  a_rsi :: rsi_result
  a_macd :: macd_result
  a_volume :: volume_result
  a_patterns :: patterns_result
  a_overall :: overall

text \<open>
  The part of \<open>analyze_asset\<close> after the candles have arrived. Every exception is caught
  there and turned into \<open>None\<close>, as is an empty or missing candle list.
\<close>

definition analyze_candles :: "config \<Rightarrow> candle list option \<Rightarrow> analysis option" where
  "analyze_candles cfg candles =
     (case candles of None \<Rightarrow> None
      | Some df \<Rightarrow>
          if df = [] then None
          else (case bind_err (calculate_rsi cfg df None) (\<lambda>r.
                     bind_err (calculate_macd cfg df) (\<lambda>m.
                     bind_err (analyze_volume df) (\<lambda>v.
                     bind_err (detect_candlestick_patterns df) (\<lambda>p.
                     bind_err (determine_overall_signal
                                 (indicator_signals (rsi_signal r) (macd_signal m)
                                    (volume_signal v) (patterns_signal p))) (\<lambda>ov.
                       Inr \<lparr>a_rsi = r, a_macd = m, a_volume = v, a_patterns = p,
                            a_overall = ov\<rparr>))))) of
                  Inl e \<Rightarrow> None
                | Inr a \<Rightarrow> Some a))"

section \<open>The gateway and the process state\<close>

text \<open>
  The calls made on the gateway \<open>iq_api\<close> are logged in the state. What the gateway, the
  calendar and the clock answer is given by an environment, as a function of the calls
  made so far, so that successive calls may be answered differently. \<open>get_balance\<close> and
  \<open>get_candles\<close> answer \<open>None\<close> on failure. \<open>place_binary_order\<close> answers with a falsy
  value (\<open>None\<close>, an empty dictionary), with a non-empty dictionary, of which
  \<open>result.get('id')\<close> is read, or with a truthy value that has no \<open>get\<close>; the latter
  carries the text of the exception that \<open>result.get\<close> raises.
\<close>

datatype gw_call =
    GetBalance
  | GetCandles string nat nat
  | PlaceBinaryOrder string real string nat

datatype order_response = Falsy | TruthyDict "string option" | TruthyOther string

record env =
  date_today :: "gw_call list \<Rightarrow> nat"
  datetime_now :: "gw_call list \<Rightarrow> string"
  get_balance :: "gw_call list \<Rightarrow> real option"
  get_candles :: "gw_call list \<Rightarrow> string \<Rightarrow> nat \<Rightarrow> nat \<Rightarrow> candle list option"
  place_binary_order :: "gw_call list \<Rightarrow> string \<Rightarrow> real \<Rightarrow> string \<Rightarrow> nat \<Rightarrow> order_response"

record asset_stats =
  as_trades :: nat
  as_wins :: nat
  as_losses :: nat
  as_profit_loss :: real

record trade =
  timestamp :: string
  asset :: string
  amount :: real
  direction :: string
  result :: "string option"
  trade_profit_loss :: "real option"

record stats_dict =
  date :: nat
  initial_balance :: real
  current_balance :: real
  profit_loss :: real
  trades :: "trade list"
  assets :: "string \<rightharpoonup> asset_stats"

record world =
  daily_stats :: stats_dict
  calls :: "gw_call list"

text \<open>The module-level \<open>daily_stats\<close> as created on the day the module is imported.\<close>

definition initial_stats :: "nat \<Rightarrow> stats_dict" where
  "initial_stats import_day =
     \<lparr>date = import_day, initial_balance = 0, current_balance = 0, profit_loss = 0,
      trades = [], assets = Map.empty\<rparr>"

definition analyze_asset :: "env \<Rightarrow> config \<Rightarrow> string \<Rightarrow> world \<Rightarrow> analysis option \<times> world" where
  "analyze_asset e cfg a w =
     (let candles = get_candles e (calls w) a 60 100;
          w1 = w\<lparr>calls := calls w @ [GetCandles a 60 100]\<rparr>
      in (analyze_candles cfg candles, w1))"

section \<open>Risk ledger (app/services/bank_management.py)\<close>

definition initialize_daily_stats :: "env \<Rightarrow> world \<Rightarrow> world" where
  "initialize_daily_stats e w =
     (let today = date_today e (calls w)
      in if date (daily_stats w) \<noteq> today then
           (let balance = get_balance e (calls w);
                w1 = w\<lparr>calls := calls w @ [GetBalance]\<rparr>
            in case balance of
                 Some b \<Rightarrow>
                   w1\<lparr>daily_stats :=
                        \<lparr>date = today, initial_balance = b, current_balance = b,
                         profit_loss = 0, trades = [], assets = Map.empty\<rparr>\<rparr>
               | None \<Rightarrow> w1)
         else w)"

definition update_balance :: "env \<Rightarrow> world \<Rightarrow> world" where
  "update_balance e w =
     (let balance = get_balance e (calls w);
          w1 = w\<lparr>calls := calls w @ [GetBalance]\<rparr>
      in case balance of
           Some b \<Rightarrow>
             w1\<lparr>daily_stats :=
                  (daily_stats w)\<lparr>current_balance := b,
                                   profit_loss := b - initial_balance (daily_stats w)\<rparr>\<rparr>
         | None \<Rightarrow> w1)"

text \<open>The guard that all three readers of the ledger start with.\<close>

definition initialize_if_needed :: "env \<Rightarrow> world \<Rightarrow> world" where
  "initialize_if_needed e w =
     (if initial_balance (daily_stats w) = 0 then initialize_daily_stats e w else w)"

datatype stop_check = StopTriggered string real | NotTriggered real

fun stop_triggered :: "stop_check \<Rightarrow> bool" where
  "stop_triggered (StopTriggered r p) = True"
| "stop_triggered (NotTriggered p) = False"

fun percentage :: "stop_check \<Rightarrow> real" where
  "percentage (StopTriggered r p) = p"
| "percentage (NotTriggered p) = p"

definition check_stop_conditions :: "env \<Rightarrow> config \<Rightarrow> world \<Rightarrow> stop_check \<times> world" where
  "check_stop_conditions e cfg w =
     (let w1 = initialize_if_needed e w;
          w2 = update_balance e w1;
          ds = daily_stats w2;
          pl_percentage =
            (if initial_balance ds > 0 then (profit_loss ds / initial_balance ds) * 100 else 0);
          stop_loss_pct = DAILY_STOP_LOSS cfg * 100;
          stop_gain_pct = DAILY_STOP_GAIN cfg * 100
      in if pl_percentage \<le> - stop_loss_pct then (StopTriggered ''STOP_LOSS'' pl_percentage, w2)
         else if pl_percentage \<ge> stop_gain_pct then (StopTriggered ''STOP_GAIN'' pl_percentage, w2)
         else (NotTriggered pl_percentage, w2))"

text \<open>
  \<open>round(x, 2)\<close> on a float rounds its exact value to the nearest multiple of 1/100, a tie
  going to the even one.
\<close>

definition round_half_even :: "real \<Rightarrow> int" where
  "round_half_even y =
     (let f = \<lfloor>y\<rfloor>; d = y - of_int f
      in if d < 1 / 2 then f else if d > 1 / 2 then f + 1 else if even f then f else f + 1)"

definition py_round2 :: "real \<Rightarrow> real" where
  "py_round2 x = of_int (round_half_even (x * 100)) / 100"

definition calculate_entry_amount ::
    "env \<Rightarrow> config \<Rightarrow> string list \<Rightarrow> world \<Rightarrow> (string \<rightharpoonup> real) \<times> world" where
  "calculate_entry_amount e cfg asset_list w =
     (let w1 = initialize_if_needed e w;
          w2 = update_balance e w1;
          total_risk_amount = current_balance (daily_stats w2) * MAX_BANK_PERCENTAGE cfg;
          num_assets = length asset_list
      in if num_assets = 0 then (Map.empty, w2)
         else (let per_asset_amount = max 1 (py_round2 (total_risk_amount / real num_assets))
               in (map_of (map (\<lambda>a. (a, per_asset_amount)) asset_list), w2)))"

text \<open>
  \<open>if result:\<close> holds for a non-empty string, \<open>if profit_loss:\<close> for a number other
  than 0.
\<close>

definition truthy_str :: "string option \<Rightarrow> bool" where
  "truthy_str r = (case r of None \<Rightarrow> False | Some s \<Rightarrow> s \<noteq> [])"

definition truthy_num :: "real option \<Rightarrow> real option" where
  "truthy_num p = (case p of None \<Rightarrow> None | Some x \<Rightarrow> if x = 0 then None else Some x)"

definition new_asset_stats :: asset_stats where
  "new_asset_stats = \<lparr>as_trades = 0, as_wins = 0, as_losses = 0, as_profit_loss = 0\<rparr>"

definition update_asset_stats :: "string option \<Rightarrow> real option \<Rightarrow> asset_stats \<Rightarrow> asset_stats" where
  "update_asset_stats res pl st =
     (if truthy_str res then
        (let st1 = st\<lparr>as_trades := as_trades st + 1\<rparr>;
             st2 = (if res = Some ''WIN'' then st1\<lparr>as_wins := as_wins st1 + 1\<rparr>
                    else if res = Some ''LOSS'' then st1\<lparr>as_losses := as_losses st1 + 1\<rparr>
                    else st1)
         in case truthy_num pl of
              Some x \<Rightarrow> st2\<lparr>as_profit_loss := as_profit_loss st2 + x\<rparr>
            | None \<Rightarrow> st2)
      else st)"

definition record_trade ::
    "env \<Rightarrow> string \<Rightarrow> real \<Rightarrow> string \<Rightarrow> string option \<Rightarrow> real option \<Rightarrow> world \<Rightarrow> trade \<times> world" where
  "record_trade e a amt dir res pl w =
     (let ds = daily_stats w;
          st = (case assets ds a of None \<Rightarrow> new_asset_stats | Some s \<Rightarrow> s);
          t = \<lparr>timestamp = datetime_now e (calls w), asset = a, amount = amt, direction = dir,
               result = res, trade_profit_loss = pl\<rparr>
      in (t, w\<lparr>daily_stats :=
                  ds\<lparr>trades := trades ds @ [t],
                     assets := (assets ds)(a \<mapsto> update_asset_stats res pl st)\<rparr>\<rparr>))"

definition get_daily_stats :: "env \<Rightarrow> world \<Rightarrow> stats_dict \<times> world" where
  "get_daily_stats e w =
     (let w1 = (if initial_balance (daily_stats w) = 0 then initialize_daily_stats e w
                else update_balance e w)
      in (daily_stats w1, w1))"

section \<open>Execution orchestrator (app/services/trading.py)\<close>

datatype trade_result =
    Placed string string real nat "string option"
  | Failed string string real nat
  | Error string string

fun status :: "trade_result \<Rightarrow> string" where
  "status (Placed a d amt ex oid) = ''placed''"
| "status (Failed a d amt ex) = ''failed''"
| "status (Error a msg) = ''error''"

fun result_asset :: "trade_result \<Rightarrow> string" where
  "result_asset (Placed a d amt ex oid) = a"
| "result_asset (Failed a d amt ex) = a"
| "result_asset (Error a msg) = a"

datatype report = Stopped string real | Executed "trade_result list"

text \<open>\<open>entry_amounts.get(asset, 0)\<close>.\<close>

definition get_amount :: "(string \<rightharpoonup> real) \<Rightarrow> string \<Rightarrow> real" where
  "get_amount entry_amounts a = (case entry_amounts a of None \<Rightarrow> 0 | Some x \<Rightarrow> x)"

text \<open>
  The body of the loop for one asset: the entry appended to \<open>results['trades']\<close>, if any,
  and the new state. The three \<open>continue\<close> statements append nothing.
\<close>

definition trade_asset ::
    "env \<Rightarrow> config \<Rightarrow> (string \<rightharpoonup> real) \<Rightarrow> string \<Rightarrow> world \<Rightarrow> trade_result option \<times> world" where
  "trade_asset e cfg entry_amounts a w =
     (if get_amount entry_amounts a < 1 then (None, w)
      else (case analyze_asset e cfg a w of
              (None, w1) \<Rightarrow> (None, w1)
            | (Some an, w1) \<Rightarrow>
                if signal (a_overall an) = ''NEUTRAL'' \<or> strength (a_overall an) < 60
                then (None, w1)
                else (let dir = signal (a_overall an);
                          amt = get_amount entry_amounts a;
                          expiration = EXPIRATION_TIME cfg;
                          w2 = snd (record_trade e a amt dir None None w1);
                          res = place_binary_order e (calls w2) a amt dir expiration;
                          w3 = w2\<lparr>calls := calls w2 @ [PlaceBinaryOrder a amt dir expiration]\<rparr>
                      in case res of
                           TruthyDict oid \<Rightarrow> (Some (Placed a dir amt expiration oid), w3)
                         | Falsy \<Rightarrow> (Some (Failed a dir amt expiration), w3)
                         | TruthyOther msg \<Rightarrow> (Some (Error a msg), w3))))"

fun trade_assets ::
    "env \<Rightarrow> config \<Rightarrow> (string \<rightharpoonup> real) \<Rightarrow> string list \<Rightarrow> trade_result list \<Rightarrow> world
      \<Rightarrow> trade_result list \<times> world" where
  "trade_assets e cfg entry_amounts [] results w = (results, w)"
| "trade_assets e cfg entry_amounts (a # rest) results w =
     (case trade_asset e cfg entry_amounts a w of
        (None, w1) \<Rightarrow> trade_assets e cfg entry_amounts rest results w1
      | (Some r, w1) \<Rightarrow> trade_assets e cfg entry_amounts rest (results @ [r]) w1)"

definition execute_trades :: "env \<Rightarrow> config \<Rightarrow> string list \<Rightarrow> world \<Rightarrow> report \<times> world" where
  "execute_trades e cfg asset_list w =
     (case check_stop_conditions e cfg w of
        (StopTriggered why pct, w1) \<Rightarrow> (Stopped why pct, w1)
      | (NotTriggered pct, w1) \<Rightarrow>
          (let (entry_amounts, w2) = calculate_entry_amount e cfg asset_list w1;
               (results, w3) = trade_assets e cfg entry_amounts asset_list [] w2
           in (Executed results, w3)))"

section \<open>Notions used to state the properties\<close>

text \<open>The ledger invariant: the stored profit/loss is the balance difference.\<close>

definition ledger_inv :: "stats_dict \<Rightarrow> bool" where
  "ledger_inv ds = (current_balance ds - initial_balance ds = profit_loss ds)"

text \<open>The operations that write the ledger, and a run of them.\<close>

datatype ledger_op =
    Initialize
  | UpdateBalance
  | RecordTrade string real string "string option" "real option"

fun apply_op :: "env \<Rightarrow> world \<Rightarrow> ledger_op \<Rightarrow> world" where
  "apply_op e w Initialize = initialize_daily_stats e w"
| "apply_op e w UpdateBalance = update_balance e w"
| "apply_op e w (RecordTrade a amt dir res pl) = snd (record_trade e a amt dir res pl w)"

text \<open>
  A concrete situation: the ledger was opened on day 1 with a balance of 1000 and holds
  one trade of that day; it is now day 2 and the gateway reports a balance of 580; no
  candles are available and orders are refused.
\<close>

definition ex_env :: env where
  "ex_env = \<lparr>date_today = (\<lambda>cs. 2), datetime_now = (\<lambda>cs. ''T''),
     get_balance = (\<lambda>cs. Some 580),
     get_candles = (\<lambda>cs a tf n. None),
     place_binary_order = (\<lambda>cs a amt d ex. Falsy)\<rparr>"

definition ex_trade :: trade where
  "ex_trade = \<lparr>timestamp = ''T0'', asset = ''EURUSD'', amount = 100, direction = ''CALL'',
     result = None, trade_profit_loss = None\<rparr>"

definition ex_stats :: stats_dict where
  "ex_stats = \<lparr>date = 1, initial_balance = 1000, current_balance = 1000,
      profit_loss = 0, trades = [ex_trade], assets = [''EURUSD'' \<mapsto> new_asset_stats]\<rparr>"

definition ex_world :: world where
  "ex_world = \<lparr>daily_stats = ex_stats, calls = []\<rparr>"

text \<open>The assets of the orders submitted to the gateway, in the order of submission.\<close>

fun order_asset :: "gw_call \<Rightarrow> string list" where
  "order_asset (PlaceBinaryOrder a amt d ex) = [a]"
| "order_asset GetBalance = []"
| "order_asset (GetCandles a tf n) = []"

definition order_assets :: "gw_call list \<Rightarrow> string list" where
  "order_assets cs = concat (map order_asset cs)"

text \<open>The three values of \<open>status\<close> that an entry of the report can have.\<close>

definition entry_status :: "trade_result \<Rightarrow> bool" where
  "entry_status r = (status r = ''placed'' \<or> status r = ''failed'' \<or> status r = ''error'')"

text \<open>
  A second situation: it is still day 1, the balance is 1000, the gateway accepts every
  order, and it has two candles for EURUSD, a falling one engulfed by a rising one, and a
  single flat candle for every other asset.
\<close>

definition bearish_c :: candle where
  "bearish_c = \<lparr>open_c = 110 / 100, high = 111 / 100, low = 107 / 100, close = 108 / 100,
     volume = 10\<rparr>"

definition bullish_c :: candle where
  "bullish_c = \<lparr>open_c = 107 / 100, high = 112 / 100, low = 106 / 100, close = 111 / 100,
     volume = 10\<rparr>"

definition flat_c :: candle where
  "flat_c = \<lparr>open_c = 1, high = 1, low = 1, close = 1, volume = 10\<rparr>"

definition ex_env2 :: env where
  "ex_env2 = \<lparr>date_today = (\<lambda>cs. 1), datetime_now = (\<lambda>cs. ''T1''),
     get_balance = (\<lambda>cs. Some 1000),
     get_candles = (\<lambda>cs a tf n. if a = ''EURUSD'' then Some [bearish_c, bullish_c]
                                 else Some [flat_c]),
     place_binary_order = (\<lambda>cs a amt d ex. TruthyDict (Some ''42''))\<rparr>"

text \<open>A candle without body or shadows, at a given price and volume.\<close>

definition bar :: "real \<Rightarrow> real \<Rightarrow> candle" where
  "bar c v = \<lparr>open_c = c, high = c, low = c, close = c, volume = v\<rparr>"

text \<open>
  The average that the specification gives for a short series, in its words: the
  arithmetic mean of the volumes of all available bars.
\<close>

definition mean_of_available :: "candle list \<Rightarrow> pyfloat" where
  "mean_of_available df = Fin (sum_list (map volume df) / real (length df))"

text \<open>A finite float that is not negative.\<close>

fun fin_nonneg :: "pyfloat \<Rightarrow> bool" where
  "fin_nonneg (Fin x) = (0 \<le> x)"
| "fin_nonneg a = False"

section \<open>Properties of the signal fusion\<close>

text \<open>
  C1 (the code at the claim's input). For the four indicator signals Call, Call, Put,
  Neutral the fused direction is Call, with two Call votes and one Put vote, but the
  strength is 200/3 (about 66.67), not 50: the votes are divided by \<open>len(signals) - 1 = 3\<close>,
  the dictionary holding no \<open>'overall'\<close> entry when the function is called.
\<close>

theorem determine_overall_signal_two_of_four:
  "determine_overall_signal (indicator_signals ''CALL'' ''CALL'' ''PUT'' ''NEUTRAL'') =
     Inr \<lparr>signal = ''CALL'', strength = 200 / 3, call_count = 2, put_count = 1\<rparr>
   \<and> (200 / 3 :: real) \<noteq> 50"
  by (simp add: determine_overall_signal_def indicator_signals_def count_signal_def)

text \<open>
  C2 (the code at a failing input). When all four indicators say Call the strength is
  400/3 (about 133.33), above 100.
\<close>

theorem determine_overall_signal_above_100:
  "determine_overall_signal (indicator_signals ''CALL'' ''CALL'' ''CALL'' ''CALL'') =
     Inr \<lparr>signal = ''CALL'', strength = 400 / 3, call_count = 4, put_count = 0\<rparr>
   \<and> (400 / 3 :: real) > 100"
  by (simp add: determine_overall_signal_def indicator_signals_def count_signal_def)

section \<open>Properties of the risk ledger\<close>

lemma initialize_inv:
  "ledger_inv (daily_stats w) \<Longrightarrow> ledger_inv (daily_stats (initialize_daily_stats e w))"
  by (simp add: initialize_daily_stats_def ledger_inv_def Let_def split: option.splits)

lemma update_inv:
  "ledger_inv (daily_stats w) \<Longrightarrow> ledger_inv (daily_stats (update_balance e w))"
  by (simp add: update_balance_def ledger_inv_def Let_def split: option.splits)

lemma record_inv:
  "ledger_inv (daily_stats w) \<Longrightarrow>
   ledger_inv (daily_stats (snd (record_trade e a amt dir res pl w)))"
  by (simp add: record_trade_def ledger_inv_def Let_def)

lemma apply_op_inv:
  "ledger_inv (daily_stats w) \<Longrightarrow> ledger_inv (daily_stats (apply_op e w op))"
  by (cases op) (simp_all add: initialize_inv update_inv record_inv)

lemma foldl_inv:
  "ledger_inv (daily_stats w) \<Longrightarrow> ledger_inv (daily_stats (foldl (apply_op e) w ops))"
  by (induction ops arbitrary: w) (simp_all add: apply_op_inv)

text \<open>
  C5. Starting from the ledger the module creates, after any sequence of initializations
  (rollovers), balance refreshes and \<open>record_trade\<close> calls, whatever the gateway answers,
  \<open>current_balance - initial_balance = profit_loss\<close>. As the sequence is arbitrary, the
  invariant holds after each of its operations.
\<close>

theorem ledger_invariant:
  "ledger_inv (daily_stats (foldl (apply_op e) \<lparr>daily_stats = initial_stats d, calls = cs\<rparr> ops))"
  by (rule foldl_inv) (simp add: ledger_inv_def initial_stats_def)

text \<open>
  C10. \<open>record_trade\<close> leaves \<open>date\<close>, \<open>initial_balance\<close>, \<open>current_balance\<close> and the
  ledger's \<open>profit_loss\<close> as they were, appends exactly the record it returns to
  \<open>trades\<close>, changes the statistics of no other asset, and calls the gateway not at all.
\<close>

theorem record_trade_frame:
  "date (daily_stats (snd (record_trade e a amt dir res pl w))) = date (daily_stats w)
   \<and> initial_balance (daily_stats (snd (record_trade e a amt dir res pl w)))
       = initial_balance (daily_stats w)
   \<and> current_balance (daily_stats (snd (record_trade e a amt dir res pl w)))
       = current_balance (daily_stats w)
   \<and> profit_loss (daily_stats (snd (record_trade e a amt dir res pl w)))
       = profit_loss (daily_stats w)
   \<and> trades (daily_stats (snd (record_trade e a amt dir res pl w))) =
       trades (daily_stats w) @ [fst (record_trade e a amt dir res pl w)]
   \<and> (\<forall>b. b \<noteq> a \<longrightarrow>
         assets (daily_stats (snd (record_trade e a amt dir res pl w))) b
           = assets (daily_stats w) b)
   \<and> calls (snd (record_trade e a amt dir res pl w)) = calls w"
  by (simp add: record_trade_def Let_def)

text \<open>
  The frame property at a winning trade of 8 on EURUSD: the statistics of GBPUSD and the
  ledger's profit/loss stay, the statistics of EURUSD take the 8.
\<close>

theorem record_trade_frame_witness:
  "''GBPUSD'' \<noteq> ''EURUSD''
   \<and> assets (daily_stats (snd (record_trade ex_env ''EURUSD'' 10 ''CALL'' (Some ''WIN'')
         (Some 8) ex_world))) ''GBPUSD'' = assets (daily_stats ex_world) ''GBPUSD''
   \<and> profit_loss (daily_stats (snd (record_trade ex_env ''EURUSD'' 10 ''CALL'' (Some ''WIN'')
         (Some 8) ex_world))) = 0
   \<and> assets (daily_stats (snd (record_trade ex_env ''EURUSD'' 10 ''CALL'' (Some ''WIN'')
         (Some 8) ex_world))) ''EURUSD''
       = Some \<lparr>as_trades = 1, as_wins = 1, as_losses = 0, as_profit_loss = 8\<rparr>"
  using record_trade_frame [of ex_env "''EURUSD''" 10 "''CALL''" "Some ''WIN''" "Some 8" ex_world]
  by (simp add: ex_world_def ex_stats_def record_trade_def Let_def update_asset_stats_def
      truthy_str_def truthy_num_def new_asset_stats_def)

lemma map_of_const:
  "map_of (map (\<lambda>a. (a, v)) xs) a = (if a \<in> set xs then Some v else None)"
  by (induction xs) auto

text \<open>
  C9. Every amount in the mapping that \<open>calculate_entry_amount\<close> returns is at least 1,
  for every asset list, state and gateway answer; so for every asset of the list the
  test \<open>entry_amounts.get(asset, 0) < 1\<close> of \<open>execute_trades\<close> is false.
\<close>

theorem calculate_entry_amount_at_least_1:
  "(\<forall>a x. fst (calculate_entry_amount e cfg asset_list w) a = Some x \<longrightarrow> 1 \<le> x)
   \<and> (\<forall>a \<in> set asset_list. \<not> get_amount (fst (calculate_entry_amount e cfg asset_list w)) a < 1)"
  by (auto simp: calculate_entry_amount_def Let_def map_of_const get_amount_def
      split: if_splits)

text \<open>
  With a balance of 0 the computed share is 0 and the amount is raised to 1.
\<close>

theorem calculate_entry_amount_at_least_1_witness:
  "''EURUSD'' \<in> set [''EURUSD'', ''GBPUSD'']
   \<and> fst (calculate_entry_amount (ex_env\<lparr>get_balance := (\<lambda>cs. Some 0)\<rparr>) Config
           [''EURUSD'', ''GBPUSD''] ex_world) ''EURUSD'' = Some 1
   \<and> \<not> get_amount (fst (calculate_entry_amount (ex_env\<lparr>get_balance := (\<lambda>cs. Some 0)\<rparr>) Config
           [''EURUSD'', ''GBPUSD''] ex_world)) ''EURUSD'' < 1"
  using calculate_entry_amount_at_least_1 [of "ex_env\<lparr>get_balance := (\<lambda>cs. Some 0)\<rparr>" Config
      "[''EURUSD'', ''GBPUSD'']" ex_world]
  by (simp add: calculate_entry_amount_def initialize_if_needed_def update_balance_def
      ex_env_def ex_world_def ex_stats_def Config_def Let_def py_round2_def
      round_half_even_def)

text \<open>
  C3 (the code at a failing input). The ledger was opened on day 1 with a balance of 1000
  and it is day 2. None of the three readers replaces it: \<open>initialize_daily_stats\<close>,
  which would, is called only when \<open>initial_balance\<close> is 0. The stop check, the sizing
  and the statistics read all leave the date, the opening balance and the trades of day 1
  and only refresh the balance, so that the stop check of day 2 reports the stop-loss
  against the opening balance of day 1.
\<close>

theorem no_rollover_on_a_later_day:
  "date (daily_stats ex_world) < date_today ex_env (calls ex_world)
   \<and> check_stop_conditions ex_env Config ex_world
       = (StopTriggered ''STOP_LOSS'' (- 42),
          \<lparr>daily_stats = ex_stats\<lparr>current_balance := 580, profit_loss := - 420\<rparr>,
           calls = [GetBalance]\<rparr>)
   \<and> snd (calculate_entry_amount ex_env Config [''EURUSD''] ex_world)
       = \<lparr>daily_stats = ex_stats\<lparr>current_balance := 580, profit_loss := - 420\<rparr>,
          calls = [GetBalance]\<rparr>
   \<and> get_daily_stats ex_env ex_world
       = (ex_stats\<lparr>current_balance := 580, profit_loss := - 420\<rparr>,
          \<lparr>daily_stats = ex_stats\<lparr>current_balance := 580, profit_loss := - 420\<rparr>,
           calls = [GetBalance]\<rparr>)
   \<and> date (ex_stats\<lparr>current_balance := 580, profit_loss := - 420\<rparr>) = 1
   \<and> initial_balance (ex_stats\<lparr>current_balance := 580, profit_loss := - 420\<rparr>) = 1000
   \<and> trades (ex_stats\<lparr>current_balance := 580, profit_loss := - 420\<rparr>) = [ex_trade]"
  by (simp add: check_stop_conditions_def calculate_entry_amount_def get_daily_stats_def
      initialize_if_needed_def update_balance_def ex_env_def ex_world_def ex_stats_def
      Config_def Let_def)

lemma calls_update: "calls (update_balance e w) = calls w @ [GetBalance]"
  by (simp add: update_balance_def Let_def split: option.splits)

lemma trades_update: "trades (daily_stats (update_balance e w)) = trades (daily_stats w)"
  by (simp add: update_balance_def Let_def split: option.splits)

lemma calls_init_if_needed:
  "calls (initialize_if_needed e w) = calls w
   \<or> calls (initialize_if_needed e w) = calls w @ [GetBalance]"
  by (simp add: initialize_if_needed_def initialize_daily_stats_def Let_def
      split: option.splits)

lemma trades_init_if_needed:
  "trades (daily_stats (initialize_if_needed e w)) = trades (daily_stats w)
   \<or> trades (daily_stats (initialize_if_needed e w)) = []"
  by (simp add: initialize_if_needed_def initialize_daily_stats_def Let_def
      split: option.splits)

lemma snd_check_stop:
  "snd (check_stop_conditions e cfg w) = update_balance e (initialize_if_needed e w)"
  by (simp add: check_stop_conditions_def Let_def)

lemma calls_check_stop:
  "\<exists>k. calls (snd (check_stop_conditions e cfg w)) = calls w @ replicate k GetBalance"
proof -
  have "calls (snd (check_stop_conditions e cfg w))
          = calls (initialize_if_needed e w) @ [GetBalance]"
    by (simp add: snd_check_stop calls_update)
  moreover have "calls w @ [GetBalance] = calls w @ replicate 1 GetBalance"
    and "(calls w @ [GetBalance]) @ [GetBalance] = calls w @ replicate 2 GetBalance"
    by (simp_all add: numeral_2_eq_2)
  ultimately show ?thesis
    using calls_init_if_needed [of e w] by metis
qed

lemma trades_check_stop:
  "trades (daily_stats (snd (check_stop_conditions e cfg w))) = trades (daily_stats w)
   \<or> trades (daily_stats (snd (check_stop_conditions e cfg w))) = []"
  using trades_init_if_needed [of e w] by (simp add: snd_check_stop trades_update)

section \<open>Properties of the orchestrator\<close>

text \<open>
  C4. When the stop check at the start of \<open>execute_trades\<close> reports a stop, the call
  returns the stopped report with the reason and the percentage of that check, and ends
  in the state the check left: the only gateway calls made are the balance queries of
  the check (so no order is submitted and \<open>calculate_entry_amount\<close>, which would query
  the balance once more, has not run), and the trades of the ledger are the ones it had,
  or none if the check started a new day.
\<close>

theorem execute_trades_stopped:
  assumes "stop_triggered (fst (check_stop_conditions e cfg w))"
  shows "\<exists>why pct k.
           check_stop_conditions e cfg w
             = (StopTriggered why pct, snd (check_stop_conditions e cfg w))
         \<and> execute_trades e cfg asset_list w
             = (Stopped why pct, snd (check_stop_conditions e cfg w))
         \<and> calls (snd (execute_trades e cfg asset_list w)) = calls w @ replicate k GetBalance
         \<and> (trades (daily_stats (snd (execute_trades e cfg asset_list w)))
              = trades (daily_stats w)
            \<or> trades (daily_stats (snd (execute_trades e cfg asset_list w))) = [])"
proof -
  obtain sc w1 where c: "check_stop_conditions e cfg w = (sc, w1)"
    by (cases "check_stop_conditions e cfg w")
  with assms obtain why pct where sc: "sc = StopTriggered why pct"
    by (cases sc) simp_all
  have ex: "execute_trades e cfg asset_list w = (Stopped why pct, w1)"
    by (simp add: execute_trades_def c sc)
  have w1: "w1 = snd (check_stop_conditions e cfg w)"
    by (simp add: c)
  obtain k where k: "calls w1 = calls w @ replicate k GetBalance"
    using calls_check_stop [of e cfg w] w1 by auto
  have "trades (daily_stats w1) = trades (daily_stats w) \<or> trades (daily_stats w1) = []"
    using trades_check_stop [of e cfg w] w1 by simp
  with c sc ex k w1 show ?thesis
    by auto
qed

text \<open>
  A stop at work: 1000 at the opening, 580 now, a loss of 42 per cent against a limit
  of 40.
\<close>

theorem execute_trades_stopped_witness:
  "stop_triggered (fst (check_stop_conditions ex_env Config ex_world))
   \<and> execute_trades ex_env Config [''EURUSD'', ''GBPUSD''] ex_world
       = (Stopped ''STOP_LOSS'' (- 42),
          \<lparr>daily_stats = ex_stats\<lparr>current_balance := 580, profit_loss := - 420\<rparr>,
           calls = [GetBalance]\<rparr>)"
proof -
  have c: "check_stop_conditions ex_env Config ex_world
       = (StopTriggered ''STOP_LOSS'' (- 42),
          \<lparr>daily_stats = ex_stats\<lparr>current_balance := 580, profit_loss := - 420\<rparr>,
           calls = [GetBalance]\<rparr>)"
    by (simp add: check_stop_conditions_def initialize_if_needed_def update_balance_def
        ex_env_def ex_world_def ex_stats_def Config_def Let_def)
  then have t: "stop_triggered (fst (check_stop_conditions ex_env Config ex_world))"
    by simp
  from execute_trades_stopped [OF t, of "[''EURUSD'', ''GBPUSD'']"] c t show ?thesis
    by auto
qed

section \<open>Properties of the indicator engine\<close>

lemma last_rolling_mean: "s \<noteq> [] \<Longrightarrow> last (rolling_mean w s) = window_mean w s"
  by (simp add: rolling_mean_def last_map)

lemma length_rolling_mean: "length (rolling_mean w s) = length s"
  by (simp add: rolling_mean_def)

lemma length_diff: "length (diff cs) = length cs"
  by (cases cs) simp_all

lemma last_map2:
  assumes "length xs = length ys" "xs \<noteq> []"
  shows "last (map2 f xs ys) = f (last xs) (last ys)"
proof -
  have ne: "ys \<noteq> []" "zip xs ys \<noteq> []"
    using assms by (auto simp: zip_eq_Nil_iff)
  have i: "length xs - 1 < length xs" "length xs - 1 < length ys"
    using assms by (cases xs, simp_all)+
  have "last (map2 f xs ys) = map2 f xs ys ! (length xs - 1)"
    using assms ne by (simp add: last_conv_nth)
  also have "\<dots> = f (xs ! (length xs - 1)) (ys ! (length xs - 1))"
    using i by simp
  also have "\<dots> = f (last xs) (last ys)"
    using assms ne by (simp add: last_conv_nth)
  finally show ?thesis .
qed

lemma diff_shape: "x \<in> set (diff cs) \<Longrightarrow> x = NaN \<or> (\<exists>r. x = Fin r)"
  by (cases cs) auto

lemma gain_nonneg: "list_all fin_nonneg (rsi_gain (diff cs))"
  unfolding list_all_iff rsi_gain_def series_where_def
proof
  fix y assume "y \<in> set (map (\<lambda>x. if fgt x (Fin 0) then x else Fin 0) (diff cs))"
  then obtain x where x: "x \<in> set (diff cs)" "y = (if fgt x (Fin 0) then x else Fin 0)"
    by auto
  from diff_shape [OF x(1)] x(2) show "fin_nonneg y"
    by (auto simp: fgt_def)
qed

lemma fsum_nonneg: "list_all fin_nonneg s \<Longrightarrow> \<exists>r. fsum s = Fin r \<and> 0 \<le> r"
proof (induction s)
  case Nil
  then show ?case by (simp add: fsum_def)
next
  case (Cons a s)
  then obtain r where r: "fsum s = Fin r" "0 \<le> r" by auto
  from Cons.prems obtain x where x: "a = Fin x" "0 \<le> x"
    by (cases a) simp_all
  have "fsum (a # s) = Fin (x + r)"
    using r x by (simp add: fsum_def)
  with r x show ?case by simp
qed

lemma nonneg_not_nan: "list_all fin_nonneg s \<Longrightarrow> NaN \<notin> set s"
  by (auto simp: list_all_iff)

lemma list_all_drop: "list_all P s \<Longrightarrow> list_all P (drop n s)"
  by (auto simp: list_all_iff dest: in_set_dropD)

lemma window_mean_nonneg:
  assumes "list_all fin_nonneg s" "0 < w" "w \<le> length s"
  shows "\<exists>r. window_mean w s = Fin r \<and> 0 \<le> r"
proof -
  let ?win = "drop (length s - w) s"
  have a: "list_all fin_nonneg ?win" using assms(1) by (rule list_all_drop)
  then obtain r where r: "fsum ?win = Fin r" "0 \<le> r" using fsum_nonneg by blast
  have "window_mean w s = fdiv (Fin r) (Fin (real w))"
    using assms(2,3) nonneg_not_nan [OF a] r by (simp add: window_mean_def Let_def)
  with assms(2) r(2) show ?thesis by simp
qed

lemma rsi_of_rs_PInf: "rsi_of_rs PInf = Fin 100"
  by (simp add: rsi_of_rs_def fsub_def)

lemma rsi_of_rs_NInf: "rsi_of_rs NInf = Fin 100"
  by (simp add: rsi_of_rs_def fsub_def)

lemma latest_rsi:
  assumes "df \<noteq> []"
  shows "iloc_last (map rsi_of_rs (map2 fdiv (rolling_mean p (rsi_gain (diff (map close df))))
            (rolling_mean p (rsi_loss (diff (map close df))))))
         = Inr (rsi_of_rs (fdiv (window_mean p (rsi_gain (diff (map close df))))
                                (window_mean p (rsi_loss (diff (map close df))))))"
proof -
  let ?g = "rsi_gain (diff (map close df))" and ?l = "rsi_loss (diff (map close df))"
  let ?A = "rolling_mean p ?g" and ?B = "rolling_mean p ?l"
  have lg: "length ?g = length df" and ll: "length ?l = length df"
    by (simp_all add: rsi_gain_def rsi_loss_def series_where_def length_diff)
  have ne: "?g \<noteq> []" "?l \<noteq> []"
    using assms lg ll by auto
  have len: "length ?A = length ?B"
    by (simp add: length_rolling_mean lg ll)
  have neA: "?A \<noteq> []"
    using assms lg length_rolling_mean [of p ?g] by auto
  have z: "map2 fdiv ?A ?B \<noteq> []"
    using neA len by (auto simp: zip_eq_Nil_iff)
  have "last (map rsi_of_rs (map2 fdiv ?A ?B)) = rsi_of_rs (last (map2 fdiv ?A ?B))"
    by (rule last_map [OF z])
  also have "\<dots> = rsi_of_rs (fdiv (last ?A) (last ?B))"
    by (simp only: last_map2 [OF len neA])
  also have "\<dots> = rsi_of_rs (fdiv (window_mean p ?g) (window_mean p ?l))"
    by (simp only: last_rolling_mean [OF ne(1)] last_rolling_mean [OF ne(2)])
  finally show ?thesis
    using z by (simp only: iloc_last_def map_is_Nil_conv if_False)
qed

text \<open>
  C6 (as amended). For a series at least as long as the RSI window, if the average loss
  over the trailing window is 0 and the average gain is not, as in a strictly rising
  series, then \<open>calculate_rsi\<close> returns, without an error, and the RSI is 100.
\<close>

theorem rsi_100_when_no_loss:
  assumes "0 < rsi_period cfg period" "rsi_period cfg period \<le> length df"
    and "window_mean (rsi_period cfg period) (rsi_loss (diff (map close df))) = Fin 0"
    and "window_mean (rsi_period cfg period) (rsi_gain (diff (map close df))) \<noteq> Fin 0"
  shows "\<exists>r. calculate_rsi cfg df period = Inr r \<and> rsi_value r = Fin 100"
proof -
  let ?p = "rsi_period cfg period"
  from assms(1,2) have ne: "df \<noteq> []" by auto
  have "length (rsi_gain (diff (map close df))) = length df"
    by (simp add: rsi_gain_def series_where_def length_diff)
  with window_mean_nonneg [OF gain_nonneg assms(1), of "map close df"] assms(2)
  obtain g where g: "window_mean ?p (rsi_gain (diff (map close df))) = Fin g" "0 \<le> g"
    by auto
  with assms(4) have "0 < g" by simp
  then have "rsi_of_rs (fdiv (window_mean ?p (rsi_gain (diff (map close df))))
               (window_mean ?p (rsi_loss (diff (map close df))))) = Fin 100"
    by (simp add: g assms(3) rsi_of_rs_PInf)
  then show ?thesis
    unfolding calculate_rsi_def Let_def latest_rsi [OF ne] bind_err_def by simp
qed

lemmas rsi_eval =
  window_mean_def rsi_period_def rsi_gain_def rsi_loss_def series_where_def fgt_def fsum_def
  rsi_of_rs_def fsub_def

text \<open>
  The closes 1, 2, 3 with a window of 2: no loss, an average gain of 1, an RSI of 100.
\<close>

theorem rsi_100_when_no_loss_witness:
  "0 < rsi_period Config (Some 2)
   \<and> rsi_period Config (Some 2) \<le> length [bar 1 10, bar 2 10, bar 3 10]
   \<and> window_mean (rsi_period Config (Some 2))
        (rsi_loss (diff (map close [bar 1 10, bar 2 10, bar 3 10]))) = Fin 0
   \<and> window_mean (rsi_period Config (Some 2))
        (rsi_gain (diff (map close [bar 1 10, bar 2 10, bar 3 10]))) = Fin 1
   \<and> (\<exists>r. calculate_rsi Config [bar 1 10, bar 2 10, bar 3 10] (Some 2) = Inr r
          \<and> rsi_value r = Fin 100)"
proof -
  have p: "0 < rsi_period Config (Some 2)"
    "rsi_period Config (Some 2) \<le> length [bar 1 10, bar 2 10, bar 3 10]"
    by (simp_all add: rsi_period_def)
  have l: "window_mean (rsi_period Config (Some 2))
        (rsi_loss (diff (map close [bar 1 10, bar 2 10, bar 3 10]))) = Fin 0"
    and g: "window_mean (rsi_period Config (Some 2))
        (rsi_gain (diff (map close [bar 1 10, bar 2 10, bar 3 10]))) = Fin 1"
    by (simp_all add: rsi_eval bar_def)
  have g0: "window_mean (rsi_period Config (Some 2))
        (rsi_gain (diff (map close [bar 1 10, bar 2 10, bar 3 10]))) \<noteq> Fin 0"
    by (simp only: g) simp
  from rsi_100_when_no_loss [OF p l g0] p l g show ?thesis
    by blast
qed

text \<open>
  C6 (counterexample). Fifteen candles with the same close and the configured window of
  14: the average loss is 0, so is the average gain, their quotient is \<open>nan\<close>, and the
  RSI is \<open>nan\<close>, not 100.
\<close>

theorem rsi_flat_series_is_nan:
  "0 < rsi_period Config None
   \<and> rsi_period Config None \<le> length (replicate 15 flat_c)
   \<and> window_mean (rsi_period Config None)
        (rsi_loss (diff (map close (replicate 15 flat_c)))) = Fin 0
   \<and> calculate_rsi Config (replicate 15 flat_c) None
       = Inr \<lparr>rsi_value = NaN, rsi_signal = ''NEUTRAL'', overbought = False, oversold = False\<rparr>
   \<and> NaN \<noteq> Fin 100"
proof -
  have p: "0 < rsi_period Config None" "rsi_period Config None \<le> length (replicate 15 flat_c)"
    by (simp_all add: rsi_period_def Config_def)
  have l: "window_mean (rsi_period Config None)
        (rsi_loss (diff (map close (replicate 15 flat_c)))) = Fin 0"
    and g: "window_mean (rsi_period Config None)
        (rsi_gain (diff (map close (replicate 15 flat_c)))) = Fin 0"
    by (simp_all add: rsi_eval flat_c_def Config_def eval_nat_numeral)
  have ne: "replicate 15 flat_c \<noteq> []"
    by simp
  have "calculate_rsi Config (replicate 15 flat_c) None
       = Inr \<lparr>rsi_value = NaN, rsi_signal = ''NEUTRAL'', overbought = False, oversold = False\<rparr>"
    unfolding calculate_rsi_def Let_def latest_rsi [OF ne] bind_err_def l g
    by (simp add: rsi_of_rs_def fsub_def fgt_def)
  with p l show ?thesis
    by simp
qed

lemma rolling_mean_Nil: "rolling_mean w s = [] \<longleftrightarrow> s = []"
  by (simp add: rolling_mean_def)

text \<open>
  C8 (counterexample). Three bars with the volumes 10, 20 and 30: the mean of the
  available bars is 20 and the latest volume is 3/2 of it, but \<open>analyze_volume\<close> reports
  an average of 0 and a ratio of 1.
\<close>

theorem volume_short_series_no_mean:
  "analyze_volume [bar 1 10, bar 1 20, bar 1 30]
     = Inr \<lparr>latest_volume = 30, avg_volume = Fin 0, volume_ratio = Fin 1,
            volume_signal = ''NEUTRAL''\<rparr>
   \<and> mean_of_available [bar 1 10, bar 1 20, bar 1 30] = Fin 20
   \<and> fdiv (Fin 30) (mean_of_available [bar 1 10, bar 1 20, bar 1 30]) = Fin (3 / 2)
   \<and> Fin 0 \<noteq> Fin 20 \<and> Fin 1 \<noteq> Fin (3 / 2)"
  by (simp add: analyze_volume_def bind_err_def iloc_last_def last_rolling_mean window_mean_def
      rolling_mean_Nil isna_def fgt_def bar_def Let_def mean_of_available_def)

text \<open>
  C8 (as amended). With at least one and fewer than ten bars \<open>analyze_volume\<close> returns
  without an error; the rolling mean of ten bars is \<open>nan\<close> there, so the average volume is
  reported as 0, the volume ratio is 1, and the signal is neutral.
\<close>

theorem analyze_volume_short:
  assumes "df \<noteq> []" "length df < 10"
  shows "analyze_volume df = Inr \<lparr>latest_volume = volume (last df), avg_volume = Fin 0,
           volume_ratio = Fin 1, volume_signal = ''NEUTRAL''\<rparr>"
  using assms
  by (simp add: analyze_volume_def bind_err_def iloc_last_def last_rolling_mean window_mean_def
      rolling_mean_Nil isna_def fgt_def Let_def last_map)


text \<open>The three bars again.\<close>

theorem analyze_volume_short_witness:
  "[bar 1 10, bar 1 20, bar 1 30] \<noteq> [] \<and> length [bar 1 10, bar 1 20, bar 1 30] < 10
   \<and> analyze_volume [bar 1 10, bar 1 20, bar 1 30]
     = Inr \<lparr>latest_volume = 30, avg_volume = Fin 0, volume_ratio = Fin 1,
            volume_signal = ''NEUTRAL''\<rparr>"
  using analyze_volume_short [of "[bar 1 10, bar 1 20, bar 1 30]"]
  by (simp add: bar_def)

subsection \<open>The report of an executed batch\<close>

lemma order_assets_append: "order_assets (cs @ ds) = order_assets cs @ order_assets ds"
  by (simp add: order_assets_def)

lemma order_assets_balance: "order_assets (replicate k GetBalance) = []"
  by (induction k) (simp_all add: order_assets_def)

lemma trade_asset_skip:
  assumes "trade_asset e cfg am a w = (None, w')"
  shows "order_assets (calls w') = order_assets (calls w)"
  using assms
  by (auto simp: trade_asset_def analyze_asset_def Let_def order_assets_def
      split: if_splits option.splits prod.splits order_response.splits)

lemma trade_asset_entry:
  assumes "trade_asset e cfg am a w = (Some r, w')"
  shows "order_assets (calls w') = order_assets (calls w) @ [a]
         \<and> result_asset r = a \<and> entry_status r"
  using assms
  by (auto simp: trade_asset_def analyze_asset_def record_trade_def Let_def order_assets_def
      entry_status_def split: if_splits option.splits prod.splits order_response.splits)

lemma trade_assets_report:
  assumes "trade_assets e cfg am as acc w = (res, w')"
  shows "\<exists>new. res = acc @ new
         \<and> order_assets (calls w') = order_assets (calls w) @ map result_asset new
         \<and> subseq (map result_asset new) as
         \<and> list_all entry_status new"
  using assms
proof (induction as arbitrary: acc w)
  case Nil
  then show ?case by simp
next
  case (Cons a as)
  obtain r w1 where t: "trade_asset e cfg am a w = (r, w1)"
    by (cases "trade_asset e cfg am a w")
  show ?case
  proof (cases r)
    case None
    with Cons.prems t have "trade_assets e cfg am as acc w1 = (res, w')"
      by simp
    from Cons.IH [OF this] obtain new where n: "res = acc @ new"
      "order_assets (calls w') = order_assets (calls w1) @ map result_asset new"
      "subseq (map result_asset new) as" "list_all entry_status new"
      by blast
    moreover have "order_assets (calls w1) = order_assets (calls w)"
      using trade_asset_skip t None by blast
    ultimately show ?thesis
      by (intro exI [of _ new]) (simp add: subseq_drop_many [of _ _ "[a]", simplified])
  next
    case (Some x)
    with Cons.prems t have "trade_assets e cfg am as (acc @ [x]) w1 = (res, w')"
      by simp
    from Cons.IH [OF this] obtain new where n: "res = (acc @ [x]) @ new"
      "order_assets (calls w') = order_assets (calls w1) @ map result_asset new"
      "subseq (map result_asset new) as" "list_all entry_status new"
      by blast
    moreover have "order_assets (calls w1) = order_assets (calls w) @ [a]"
      "result_asset x = a" "entry_status x"
      using trade_asset_entry t Some by blast+
    ultimately show ?thesis
      by (intro exI [of _ "x # new"]) simp
  qed
qed

lemma calls_entry_amount:
  "\<exists>k. calls (snd (calculate_entry_amount e cfg asset_list w)) = calls w @ replicate k GetBalance"
proof -
  have s: "snd (calculate_entry_amount e cfg asset_list w) = update_balance e (initialize_if_needed e w)"
    by (simp add: calculate_entry_amount_def Let_def)
  have "calls (snd (calculate_entry_amount e cfg asset_list w))
          = calls (initialize_if_needed e w) @ [GetBalance]"
    by (simp add: s calls_update)
  moreover have "calls w @ [GetBalance] = calls w @ replicate 1 GetBalance"
    and "(calls w @ [GetBalance]) @ [GetBalance] = calls w @ replicate 2 GetBalance"
    by (simp_all add: numeral_2_eq_2)
  ultimately show ?thesis
    using calls_init_if_needed [of e w] by metis
qed

text \<open>
  C7 (as amended). The report of an executed batch has exactly one entry for each order
  submitted to the gateway during the call, in the order of submission; the assets of its
  entries follow one another as in the requested list, and every entry has the status
  placed, failed or error. An asset that is passed over (amount below 1, failed analysis,
  neutral signal or strength below 60) submits no order and has no entry.
\<close>

theorem execute_trades_report:
  assumes "execute_trades e cfg asset_list w = (Executed results, w')"
  shows "order_assets (calls w') = order_assets (calls w) @ map result_asset results
         \<and> subseq (map result_asset results) asset_list
         \<and> list_all entry_status results"
proof -
  obtain sc w1 where c: "check_stop_conditions e cfg w = (sc, w1)"
    by (cases "check_stop_conditions e cfg w")
  with assms obtain pct where sc: "sc = NotTriggered pct"
    by (cases sc) (simp_all add: execute_trades_def)
  obtain am w2 where am: "calculate_entry_amount e cfg asset_list w1 = (am, w2)"
    by (cases "calculate_entry_amount e cfg asset_list w1")
  from assms c sc am have t: "trade_assets e cfg am asset_list [] w2 = (results, w')"
    by (simp add: execute_trades_def split: prod.splits)
  have "order_assets (calls w1) = order_assets (calls w)"
    using calls_check_stop [of e cfg w] c
    by (auto simp: order_assets_append order_assets_balance)
  moreover have "order_assets (calls w2) = order_assets (calls w1)"
    using calls_entry_amount [of e cfg asset_list w1] am
    by (auto simp: order_assets_append order_assets_balance)
  ultimately show ?thesis
    using trade_assets_report [OF t] by auto
qed

subsection \<open>A batch with a passed-over asset\<close>

lemmas analysis_defs =
  analyze_candles_def calculate_rsi_def calculate_macd_def analyze_volume_def
  detect_candlestick_patterns_def determine_overall_signal_def indicator_signals_def
  count_signal_def bind_err_def iloc_last_def iloc_prev_def rolling_mean_def window_mean_def
  rsi_period_def rsi_gain_def rsi_loss_def series_where_def rsi_of_rs_def fsub_def fgt_def
  isna_def body_size_def upper_shadow_def lower_shadow_def is_bullish_def get_flag_def Let_def

lemma analyze_engulfing:
  "analyze_candles Config (Some [bearish_c, bullish_c]) =
     Some \<lparr>a_rsi = \<lparr>rsi_value = NaN, rsi_signal = ''NEUTRAL'', overbought = False,
                     oversold = False\<rparr>,
           a_macd = \<lparr>macd = 7 / 2925, macd_signal = ''CALL'', histogram = 28 / 14625,
                      crossover = True\<rparr>,
           a_volume = \<lparr>latest_volume = 10, avg_volume = Fin 0, volume_ratio = Fin 1,
                        volume_signal = ''NEUTRAL''\<rparr>,
           a_patterns = \<lparr>doji = False, hammer = False, bullish_engulfing = Some True,
                          bearish_engulfing = Some False, patterns_signal = ''CALL''\<rparr>,
           a_overall = \<lparr>signal = ''CALL'', strength = 200 / 3, call_count = 2,
                         put_count = 0\<rparr>\<rparr>"
  by (simp add: analysis_defs Config_def bearish_c_def bullish_c_def)

lemma analyze_flat:
  "analyze_candles Config (Some [flat_c]) =
     Some \<lparr>a_rsi = \<lparr>rsi_value = NaN, rsi_signal = ''NEUTRAL'', overbought = False,
                     oversold = False\<rparr>,
           a_macd = \<lparr>macd = 0, macd_signal = ''NEUTRAL'', histogram = 0, crossover = False\<rparr>,
           a_volume = \<lparr>latest_volume = 10, avg_volume = Fin 0, volume_ratio = Fin 1,
                        volume_signal = ''NEUTRAL''\<rparr>,
           a_patterns = \<lparr>doji = True, hammer = False, bullish_engulfing = None,
                          bearish_engulfing = None, patterns_signal = ''NEUTRAL''\<rparr>,
           a_overall = \<lparr>signal = ''NEUTRAL'', strength = 0, call_count = 0,
                         put_count = 0\<rparr>\<rparr>"
  by (simp add: analysis_defs Config_def flat_c_def)

lemma expiration_Config: "EXPIRATION_TIME Config = 1"
  by (simp add: Config_def)

lemma trade_asset_flat:
  "get_amount am ''GBPUSD'' = 100 \<Longrightarrow> trade_asset ex_env2 Config am ''GBPUSD'' w = (None, w\<lparr>calls := calls w @ [GetCandles ''GBPUSD'' 60 100]\<rparr>)"
  by (simp add: trade_asset_def analyze_asset_def ex_env2_def analyze_flat)

lemma trade_asset_engulfing:
  "get_amount am ''EURUSD'' = 100 \<Longrightarrow> fst (trade_asset ex_env2 Config am ''EURUSD'' w) = Some (Placed ''EURUSD'' ''CALL'' 100 1 (Some ''42''))"
  by (simp add: trade_asset_def analyze_asset_def ex_env2_def analyze_engulfing Let_def
      expiration_Config)

lemma entry_amounts_ex:
  "calculate_entry_amount ex_env2 Config [''GBPUSD'', ''EURUSD''] w = (am, w') \<Longrightarrow> get_amount am ''GBPUSD'' = 100 \<and> get_amount am ''EURUSD'' = 100"
  by (auto simp add: calculate_entry_amount_def update_balance_def ex_env2_def Config_def Let_def py_round2_def round_half_even_def get_amount_def)

lemma execute_trades_example:
  "fst (execute_trades ex_env2 Config [''GBPUSD'', ''EURUSD''] ex_world)
     = Executed [Placed ''EURUSD'' ''CALL'' 100 1 (Some ''42'')]"
proof -
  have c: "fst (check_stop_conditions ex_env2 Config ex_world) = NotTriggered 0"
    by (simp add: check_stop_conditions_def initialize_if_needed_def update_balance_def
        ex_env2_def ex_world_def ex_stats_def Config_def Let_def)
  obtain w1 where w1: "check_stop_conditions ex_env2 Config ex_world = (NotTriggered 0, w1)"
    using c by (cases "check_stop_conditions ex_env2 Config ex_world") simp
  obtain am w2 where am: "calculate_entry_amount ex_env2 Config [''GBPUSD'', ''EURUSD''] w1 = (am, w2)"
    by (cases "calculate_entry_amount ex_env2 Config [''GBPUSD'', ''EURUSD''] w1")
  note a = entry_amounts_ex [OF am]
  obtain w4 where w4: "trade_asset ex_env2 Config am ''EURUSD'' (w2\<lparr>calls := calls w2 @ [GetCandles ''GBPUSD'' 60 100]\<rparr>)
      = (Some (Placed ''EURUSD'' ''CALL'' 100 1 (Some ''42'')), w4)"
    using trade_asset_engulfing [of am "w2\<lparr>calls := calls w2 @ [GetCandles ''GBPUSD'' 60 100]\<rparr>"] a
    by (cases "trade_asset ex_env2 Config am ''EURUSD'' (w2\<lparr>calls := calls w2 @ [GetCandles ''GBPUSD'' 60 100]\<rparr>)") simp
  show ?thesis
    using a by (simp add: execute_trades_def w1 am trade_asset_flat w4)
qed


text \<open>
  In the second situation GBPUSD has a neutral signal and is passed over, EURUSD has two
  Call votes, a strength of 200/3, and its order is placed: the report has the single
  entry of EURUSD.
\<close>

theorem execute_trades_report_witness:
  "fst (execute_trades ex_env2 Config [''GBPUSD'', ''EURUSD''] ex_world)
     = Executed [Placed ''EURUSD'' ''CALL'' 100 1 (Some ''42'')]
   \<and> order_assets (calls (snd (execute_trades ex_env2 Config [''GBPUSD'', ''EURUSD''] ex_world)))
     = [''EURUSD'']
   \<and> subseq [''EURUSD''] [''GBPUSD'', ''EURUSD'']"
proof -
  obtain w' where w: "execute_trades ex_env2 Config [''GBPUSD'', ''EURUSD''] ex_world
      = (Executed [Placed ''EURUSD'' ''CALL'' 100 1 (Some ''42'')], w')"
    using execute_trades_example
    by (cases "execute_trades ex_env2 Config [''GBPUSD'', ''EURUSD''] ex_world") simp
  from execute_trades_report [OF w] w show ?thesis
    by (simp add: ex_world_def order_assets_def)
qed

text \<open>
  C7 (counterexample). In that batch not every requested asset has an entry in the
  report: GBPUSD has none.
\<close>

theorem skipped_asset_not_reported:
  "\<not> (\<forall>a \<in> set [''GBPUSD'', ''EURUSD''].
        \<exists>r. fst (execute_trades ex_env2 Config [''GBPUSD'', ''EURUSD''] ex_world) = Executed r
           \<and> a \<in> set (map result_asset r))"
  by (simp add: execute_trades_example)

end
